theory Spec2Isabelle
  imports Complex_Main
begin

section \<open>Two qubits with exchange interaction: the notebook's numerical pipeline\<close>

text \<open>
  The notebook \<^verbatim>\<open>2-qubitEvolution.ipynb\<close> is a straight-line numpy program. Its arrays
  are modelled as lists (a matrix is the list of its rows), its floating-point numbers as
  the real and complex numbers they approximate: the results below are about the exact
  values of the expressions the notebook evaluates; rounding is not modelled. Where a
  statement ranges over every value of \<open>hbar\<close>, the range of doubles is added to the
  exact values: see \<open>propagate_dbl\<close>.
\<close>

type_synonym cvec = "complex list"
type_synonym cmat = "complex list list"

subsection \<open>The numpy operations the notebook uses\<close>

text \<open>\<^verbatim>\<open>np.kron\<close> on two matrices and on two vectors: block \<open>(i, j)\<close> is \<open>A[i, j] * B\<close>.\<close>

definition kron :: "cmat \<Rightarrow> cmat \<Rightarrow> cmat" where
  "kron A B = concat (map (\<lambda>ra. map (\<lambda>rb. concat (map (\<lambda>a. map (\<lambda>b. a * b) rb) ra)) B) A)"

definition kron_vec :: "cvec \<Rightarrow> cvec \<Rightarrow> cvec" where
  "kron_vec u v = concat (map (\<lambda>a. map (\<lambda>b. a * b) v) u)"

text \<open>
  The operator \<^verbatim>\<open>@\<close>: sum of products over the shared index. numpy raises on operands
  whose shapes do not agree; every operand of the notebook is a 4 x 4 matrix or a vector
  of length 4, and the theorems below say so where an operand is left general.
\<close>

definition dot :: "cvec \<Rightarrow> cvec \<Rightarrow> complex" where
  "dot u v = sum_list (map (\<lambda>(a, b). a * b) (zip u v))"

definition ncols :: "cmat \<Rightarrow> nat" where
  "ncols A = (case A of [] \<Rightarrow> 0 | r # _ \<Rightarrow> length r)"

definition col :: "cmat \<Rightarrow> nat \<Rightarrow> cvec" where
  "col A j = map (\<lambda>r. r ! j) A"

definition matmul :: "cmat \<Rightarrow> cmat \<Rightarrow> cmat" where
  "matmul A B = map (\<lambda>r. map (\<lambda>j. dot r (col B j)) [0..<ncols B]) A"

definition matvec :: "cmat \<Rightarrow> cvec \<Rightarrow> cvec" where
  "matvec A v = map (\<lambda>r. dot r v) A"

definition vecmat :: "cvec \<Rightarrow> cmat \<Rightarrow> cvec" where
  "vecmat v A = map (\<lambda>j. dot v (col A j)) [0..<ncols A]"

text \<open>Elementwise sum, and a scalar times, or dividing, every entry.\<close>

definition madd :: "cmat \<Rightarrow> cmat \<Rightarrow> cmat" where
  "madd A B = map (\<lambda>(ra, rb). map (\<lambda>(a, b). a + b) (zip ra rb)) (zip A B)"

definition scal :: "complex \<Rightarrow> cmat \<Rightarrow> cmat" where
  "scal c A = map (map (\<lambda>z. c * z)) A"

definition mul_scalar :: "cmat \<Rightarrow> complex \<Rightarrow> cmat" where
  "mul_scalar A c = map (map (\<lambda>z. z * c)) A"

text \<open>
  Dividing an array by the float \<open>0.0\<close> raises nothing in numpy: it warns and fills the
  array with \<open>nan\<close> or \<open>inf\<close>. Those are not complex numbers, so an array is either
  \<open>Num\<close>, with the numbers it holds, or \<open>NonFinite\<close>; HOL's own \<open>z / 0 = 0\<close> is never
  used for such a quotient. The notebook passes a \<open>NonFinite\<close> array on unchecked. What a
  library routine does with one (return \<open>nan\<close> again, or raise an exception of its own)
  is the library's choice, not the notebook's, and the result stays \<open>NonFinite\<close> here.
  Over the exact values only the divisor zero gives such an array; a divisor or a product
  that leaves the range of doubles does so too, and \<open>propagate_dbl\<close> below adds those.
\<close>

datatype 'a np = Num 'a | NonFinite

definition div_scalar :: "cmat \<Rightarrow> real \<Rightarrow> cmat np" where
  "div_scalar A d = (if d = 0 then NonFinite else Num (map (map (\<lambda>z. z / of_real d)) A))"

definition conj_vec :: "cvec \<Rightarrow> cvec" where
  "conj_vec v = map cnj v"

text \<open>\<^verbatim>\<open>np.linspace(start, stop, num)\<close>, end point included.\<close>

definition linspace :: "real \<Rightarrow> real \<Rightarrow> nat \<Rightarrow> real list" where
  "linspace start stop num =
     (if num = 1 then [start]
      else map (\<lambda>i. start + of_nat i * ((stop - start) / of_nat (num - 1))) [0..<num])"

subsection \<open>The matrix exponential\<close>

text \<open>
  \<^verbatim>\<open>scipy.linalg.expm\<close> is a library routine. It is modelled by the function it
  approximates, the exponential series \<open>\<Sum>n. A^n / n!\<close>, taken entry by entry.
\<close>

definition eye :: "nat \<Rightarrow> cmat" where
  "eye n = map (\<lambda>i. map (\<lambda>j. if i = j then 1 else 0) [0..<n]) [0..<n]"

primrec mpow :: "cmat \<Rightarrow> nat \<Rightarrow> cmat" where
  "mpow A 0 = eye (length A)"
| "mpow A (Suc n) = matmul A (mpow A n)"

definition expm :: "cmat \<Rightarrow> cmat" where
  "expm A = map (\<lambda>i. map (\<lambda>j. (\<Sum>n. mpow A n ! i ! j / fact n)) [0..<length A])
              [0..<length A]"

subsection \<open>The notebook, cell by cell\<close>

text \<open>The two-spin Pauli matrices.\<close>

definition identity :: cmat where
  "identity = [[1, 0], [0, 1]]"

definition sigma1Z :: cmat where
  "sigma1Z = kron [[1, 0], [0, - 1]] identity"

definition sigma1X :: cmat where
  "sigma1X = kron [[0, 1], [1, 0]] identity"

definition sigma1Y :: cmat where
  "sigma1Y = kron [[0, - \<i>], [\<i>, 0]] identity"

definition sigma2Z :: cmat where
  "sigma2Z = kron identity [[1, 0], [0, - 1]]"

definition sigma2X :: cmat where
  "sigma2X = kron identity [[0, 1], [1, 0]]"

definition sigma2Y :: cmat where
  "sigma2Y = kron identity [[0, - \<i>], [\<i>, 0]]"

text \<open>
  The Hamiltonian, \<^verbatim>\<open>H = J * hbar/4 * (sigma1X@sigma2X + sigma1Y@sigma2Y + sigma1Z@sigma2Z)\<close>.
  The coupling and \<^verbatim>\<open>scipy.constants.hbar\<close> are its parameters; the notebook sets
  \<^verbatim>\<open>J = 2 * np.pi\<close>. \<open>H\<close> holds the exact values; \<open>H_dbl\<close> below says when the doubles do.
\<close>

definition J :: real where
  "J = 2 * pi"

definition H :: "real \<Rightarrow> real \<Rightarrow> cmat" where
  "H coupling hbar =
     scal (of_real (coupling * hbar / 4))
       (madd (madd (matmul sigma1X sigma2X) (matmul sigma1Y sigma2Y)) (matmul sigma1Z sigma2Z))"

text \<open>The initial state.\<close>

definition psi1 :: cvec where
  "psi1 = [1, 0]"

definition psi2 :: cvec where
  "psi2 = map (\<lambda>z. z / of_real (sqrt 2)) [1, 1]"

definition psi0 :: cvec where
  "psi0 = kron_vec psi1 psi2"

text \<open>
  The evolution: \<^verbatim>\<open>for t in time: psiT.append(expm(-1j*H*t/hbar) @ psi0)\<close>. The body is
  \<open>propagate\<close>: it multiplies \<open>H\<close> by \<open>- \<i>\<close>, then by \<open>t\<close>, divides by \<open>hbar\<close> and only then
  calls \<open>expm\<close>; nothing checks \<open>hbar\<close> before. The loop threads the list it appends to.
\<close>

definition time :: "real list" where
  "time = linspace 0 (1 / 2) 101"

definition propagate :: "cmat \<Rightarrow> real \<Rightarrow> cvec \<Rightarrow> real \<Rightarrow> cvec np" where
  "propagate Hm hbar p0 t =
     map_np (\<lambda>A. matvec (expm A) p0)
       (div_scalar (mul_scalar (scal (- \<i>) Hm) (of_real t)) hbar)"

primrec psiT_loop :: "cmat \<Rightarrow> real \<Rightarrow> cvec \<Rightarrow> real list \<Rightarrow> cvec np list \<Rightarrow> cvec np list" where
  "psiT_loop Hm hbar p0 [] acc = acc"
| "psiT_loop Hm hbar p0 (t # ts) acc = psiT_loop Hm hbar p0 ts (acc @ [propagate Hm hbar p0 t])"

definition psiT :: "cmat \<Rightarrow> real \<Rightarrow> cvec \<Rightarrow> real list \<Rightarrow> cvec np list" where
  "psiT Hm hbar p0 ts = psiT_loop Hm hbar p0 ts []"

text \<open>
  The expectation values, \<^verbatim>\<open>[(p.conj().T @ sigma @ p).real for p in psiT]\<close>: the
  transpose of a vector is the vector, \<^verbatim>\<open>@\<close> associates to the left, and an entry that is
  not a number stays so.
\<close>

definition expect :: "cmat \<Rightarrow> cvec \<Rightarrow> real" where
  "expect S p = Re (dot (vecmat (conj_vec p) S) p)"

definition series :: "cmat \<Rightarrow> cvec np list \<Rightarrow> real np list" where
  "series S traj = map (map_np (expect S)) traj"

definition x1 :: "cvec np list \<Rightarrow> real np list" where
  "x1 traj = series sigma1X traj"

definition y1 :: "cvec np list \<Rightarrow> real np list" where
  "y1 traj = series sigma1Y traj"

definition z1 :: "cvec np list \<Rightarrow> real np list" where
  "z1 traj = series sigma1Z traj"

definition x2 :: "cvec np list \<Rightarrow> real np list" where
  "x2 traj = series sigma2X traj"

definition y2 :: "cvec np list \<Rightarrow> real np list" where
  "y2 traj = series sigma2Y traj"

definition z2 :: "cvec np list \<Rightarrow> real np list" where
  "z2 traj = series sigma2Z traj"

subsection \<open>The loop body within the range of doubles\<close>

text \<open>
  A double holds magnitudes below \<open>2 ^ 1024\<close>: a product or quotient whose exact value is
  that large is \<open>inf\<close>, and \<open>inf\<close> times a zero entry is \<open>nan\<close>. \<open>propagate_dbl\<close> is the loop
  body once more, on the exact values as before, with each array it builds checked
  against that range:
  \<^item> \<^verbatim>\<open>J * hbar\<close> is the first product; once it is in range, so are its quarter and the
    entries of \<open>H\<close>, and so is \<open>H\<close> times \<open>- \<i>\<close>;
  \<^item> the product with \<open>t\<close> is checked entry by entry;
  \<^item> numpy divides a complex array by \<open>hbar\<close> by multiplying with \<open>1 / hbar\<close>; that
    reciprocal must exist and be in range, and so must the entries of the quotient.
  The initial state is the notebook's \<open>psi0\<close>. Rounding is still not modelled.
\<close>

definition overflows :: "real \<Rightarrow> bool" where
  "overflows x \<longleftrightarrow> 2 ^ 1024 \<le> \<bar>x\<bar>"

definition in_range :: "complex \<Rightarrow> bool" where
  "in_range z \<longleftrightarrow> \<not> overflows (Re z) \<and> \<not> overflows (Im z)"

definition finite_arr :: "cmat \<Rightarrow> cmat np" where
  "finite_arr A = (if list_all (list_all in_range) A then Num A else NonFinite)"

definition H_dbl :: "real \<Rightarrow> real \<Rightarrow> cmat np" where
  "H_dbl coupling hbar = (if overflows (coupling * hbar) then NonFinite else Num (H coupling hbar))"

definition propagate_dbl :: "real \<Rightarrow> real \<Rightarrow> real \<Rightarrow> cvec np" where
  "propagate_dbl coupling hbar t =
     (case H_dbl coupling hbar of
        NonFinite \<Rightarrow> NonFinite
      | Num Hm \<Rightarrow>
          (case finite_arr (mul_scalar (scal (- \<i>) Hm) (of_real t)) of
             NonFinite \<Rightarrow> NonFinite
           | Num A \<Rightarrow>
               if hbar = 0 \<or> overflows (1 / hbar) then NonFinite
               else (case finite_arr (map (map (\<lambda>z. z * of_real (1 / hbar))) A) of
                       NonFinite \<Rightarrow> NonFinite
                     | Num B \<Rightarrow> Num (matvec (expm B) psi0))))"

primrec psiT_dbl_loop :: "real \<Rightarrow> real \<Rightarrow> real list \<Rightarrow> cvec np list \<Rightarrow> cvec np list" where
  "psiT_dbl_loop coupling hbar [] acc = acc"
| "psiT_dbl_loop coupling hbar (t # ts) acc =
     psiT_dbl_loop coupling hbar ts (acc @ [propagate_dbl coupling hbar t])"

definition psiT_dbl :: "real \<Rightarrow> real \<Rightarrow> real list \<Rightarrow> cvec np list" where
  "psiT_dbl coupling hbar ts = psiT_dbl_loop coupling hbar ts []"

subsection \<open>Notions of the specification\<close>

text \<open>
  The notebook never computes the following; the specification states its properties
  with them. \<open>vnorm\<close> is the Euclidean norm of a state, \<open>dagger\<close> the conjugate transpose,
  \<open>matmul_entry\<close> one entry of the standard product of two 4 x 4 matrices, and \<open>bra_ket\<close>
  the scalar \<open>\<psi>\<^sup>\<dagger> S \<psi>\<close> of a state of dimension 4, written as the double sum it is.
\<close>

definition vnorm :: "cvec \<Rightarrow> real" where
  "vnorm v = sqrt (sum_list (map (\<lambda>z. (cmod z)\<^sup>2) v))"

definition dagger :: "cmat \<Rightarrow> cmat" where
  "dagger A = map (\<lambda>j. map cnj (col A j)) [0..<ncols A]"

definition matmul_entry :: "cmat \<Rightarrow> cmat \<Rightarrow> nat \<Rightarrow> nat \<Rightarrow> complex" where
  "matmul_entry A B i j = (\<Sum>k<4. A ! i ! k * B ! k ! j)"

definition bra_ket :: "cvec \<Rightarrow> cmat \<Rightarrow> complex" where
  "bra_ket p S = (\<Sum>r<4. \<Sum>k<4. cnj (p ! r) * S ! r ! k * p ! k)"

text \<open>
  The exponential of a 4 x 4 matrix given by its entries, as the specification's
  \<open>exp(- \<i> H t / hbar)\<close> reads: \<open>power_entry A n\<close> is an entry of the \<open>n\<close>-th power, by the
  entrywise product, and \<open>exp_entry A\<close> an entry of \<open>\<Sum>n. A^n / n!\<close>.
\<close>

primrec power_entry :: "(nat \<Rightarrow> nat \<Rightarrow> complex) \<Rightarrow> nat \<Rightarrow> nat \<Rightarrow> nat \<Rightarrow> complex" where
  "power_entry A 0 i j = (if i = j then 1 else 0)"
| "power_entry A (Suc n) i j = (\<Sum>k<4. A i k * power_entry A n k j)"

definition exp_entry :: "(nat \<Rightarrow> nat \<Rightarrow> complex) \<Rightarrow> nat \<Rightarrow> nat \<Rightarrow> complex" where
  "exp_entry A i j = (\<Sum>n. power_entry A n i j / fact n)"

text \<open>The sum of the three Pauli products, the matrix part of the Hamiltonian.\<close>

definition exchange :: cmat where
  "exchange = madd (madd (matmul sigma1X sigma2X) (matmul sigma1Y sigma2Y)) (matmul sigma1Z sigma2Z)"

subsection \<open>Closed forms used in the proofs\<close>

text \<open>
  \<open>xmat w\<close> is \<open>w\<close> times the sum of the Pauli products, \<open>xpow (w ^ n) ((- 3 * w) ^ n)\<close>
  its \<open>n\<close>-th power, \<open>phase c t\<close> the factor \<open>- \<i> c t / 4\<close> the loop body puts before that
  sum, and \<open>evolved w p\<close> the state the exponential of \<open>xmat w\<close> sends \<open>p\<close> to.
\<close>

definition xmat :: "complex \<Rightarrow> cmat" where
  "xmat w = [[w, 0, 0, 0], [0, - w, 2 * w, 0], [0, 2 * w, - w, 0], [0, 0, 0, w]]"

definition xpow :: "complex \<Rightarrow> complex \<Rightarrow> cmat" where
  "xpow u v = [[u, 0, 0, 0], [0, (u + v) / 2, (u - v) / 2, 0], [0, (u - v) / 2, (u + v) / 2, 0], [0, 0, 0, u]]"

definition phase :: "real \<Rightarrow> real \<Rightarrow> complex" where
  "phase c t = - \<i> * of_real (c * t / 4)"

definition evolved :: "complex \<Rightarrow> cvec \<Rightarrow> cvec" where
  "evolved w p = matvec (xpow (exp w) (exp (- 3 * w))) p"

section \<open>Auxiliary facts\<close>

subsection \<open>Lists of length four\<close>

text \<open>The numpy operations evaluated on matrices and vectors of dimension 4.\<close>

lemma upt4: "[0..<4] = [0,1,2,3]" by (simp add: upt_rec)

lemma lt4: "i < 4 \<Longrightarrow> i = 0 \<or> i = 1 \<or> i = 2 \<or> i = (3::nat)"
  by arith

lemma len4: "length (p :: 'a list) = 4 \<Longrightarrow> \<exists>a b c d. p = [a, b, c, d]"
  by (auto simp: length_Suc_conv eval_nat_numeral)

lemma sum4: "(\<Sum>k<(4::nat). f k) = f 0 + f 1 + f 2 + (f 3 :: complex)"
  by (simp add: eval_nat_numeral lessThan_Suc)

lemma matmul4:
  "matmul [[a00,a01,a02,a03],[a10,a11,a12,a13],[a20,a21,a22,a23],[a30,a31,a32,a33]]
          [[b00,b01,b02,b03],[b10,b11,b12,b13],[b20,b21,b22,b23],[b30,b31,b32,b33]]
   = [[a00*b00+a01*b10+a02*b20+a03*b30, a00*b01+a01*b11+a02*b21+a03*b31, a00*b02+a01*b12+a02*b22+a03*b32, a00*b03+a01*b13+a02*b23+a03*b33],
      [a10*b00+a11*b10+a12*b20+a13*b30, a10*b01+a11*b11+a12*b21+a13*b31, a10*b02+a11*b12+a12*b22+a13*b32, a10*b03+a11*b13+a12*b23+a13*b33],
      [a20*b00+a21*b10+a22*b20+a23*b30, a20*b01+a21*b11+a22*b21+a23*b31, a20*b02+a21*b12+a22*b22+a23*b32, a20*b03+a21*b13+a22*b23+a23*b33],
      [a30*b00+a31*b10+a32*b20+a33*b30, a30*b01+a31*b11+a32*b21+a33*b31, a30*b02+a31*b12+a32*b22+a33*b32, a30*b03+a31*b13+a32*b23+a33*b33]]"
  by (simp add: matmul_def dot_def col_def ncols_def upt4 add.assoc)

lemma matvec4:
  "matvec [[a00,a01,a02,a03],[a10,a11,a12,a13],[a20,a21,a22,a23],[a30,a31,a32,a33]] [a, b, c, d]
   = [a00*a+a01*b+a02*c+a03*d, a10*a+a11*b+a12*c+a13*d, a20*a+a21*b+a22*c+a23*d, a30*a+a31*b+a32*c+a33*d]"
  by (simp add: matvec_def dot_def add.assoc)

lemma vecmat4:
  "vecmat [a, b, c, d] [[a00,a01,a02,a03],[a10,a11,a12,a13],[a20,a21,a22,a23],[a30,a31,a32,a33]]
   = [a*a00+b*a10+c*a20+d*a30, a*a01+b*a11+c*a21+d*a31, a*a02+b*a12+c*a22+d*a32, a*a03+b*a13+c*a23+d*a33]"
  by (simp add: vecmat_def dot_def col_def ncols_def upt4 add.assoc)

lemma dot4: "dot [a, b, c, d] [a', b', c', d'] = a * a' + b * b' + c * c' + d * d'"
  by (simp add: dot_def add.assoc)

lemma eye4: "eye 4 = [[1,0,0,0],[0,1,0,0],[0,0,1,0],[0,0,0,1]]"
  by (simp add: eye_def upt4)

subsection \<open>The Pauli matrices, the Hamiltonian and the initial state, entry by entry\<close>

lemma sigma1X_val: "sigma1X = [[0,0,1,0],[0,0,0,1],[1,0,0,0],[0,1,0,0]]"
  by (simp add: sigma1X_def kron_def identity_def)

lemma sigma2X_val: "sigma2X = [[0,1,0,0],[1,0,0,0],[0,0,0,1],[0,0,1,0]]"
  by (simp add: sigma2X_def kron_def identity_def)

lemma sigma1Y_val: "sigma1Y = [[0,0,-\<i>,0],[0,0,0,-\<i>],[\<i>,0,0,0],[0,\<i>,0,0]]"
  by (simp add: sigma1Y_def kron_def identity_def)

lemma sigma2Y_val: "sigma2Y = [[0,-\<i>,0,0],[\<i>,0,0,0],[0,0,0,-\<i>],[0,0,\<i>,0]]"
  by (simp add: sigma2Y_def kron_def identity_def)

lemma sigma1Z_val: "sigma1Z = [[1,0,0,0],[0,1,0,0],[0,0,-1,0],[0,0,0,-1]]"
  by (simp add: sigma1Z_def kron_def identity_def)

lemma sigma2Z_val: "sigma2Z = [[1,0,0,0],[0,-1,0,0],[0,0,1,0],[0,0,0,-1]]"
  by (simp add: sigma2Z_def kron_def identity_def)

lemma exchange_val: "exchange = [[1,0,0,0],[0,-1,2,0],[0,2,-1,0],[0,0,0,1]]"
  unfolding exchange_def sigma1X_val sigma2X_val sigma1Y_val sigma2Y_val sigma1Z_val sigma2Z_val matmul4
  by (simp add: madd_def)

lemma exchange_entry:
  assumes "a < 4" and "b < 4"
  shows "matmul_entry sigma1X sigma2X a b + matmul_entry sigma1Y sigma2Y a b
           + matmul_entry sigma1Z sigma2Z a b = exchange ! a ! b"
  unfolding matmul_entry_def sum4 exchange_val sigma1X_val sigma2X_val sigma1Y_val sigma2Y_val
    sigma1Z_val sigma2Z_val
  using lt4 [OF assms(1)] lt4 [OF assms(2)] by auto

lemma H_val: "H c hbar = xmat (of_real (c * hbar / 4))"
  unfolding H_def sigma1X_val sigma2X_val sigma1Y_val sigma2Y_val sigma1Z_val sigma2Z_val matmul4
  by (simp add: madd_def scal_def xmat_def)

lemma psi0_val: "psi0 = [1 / of_real (sqrt 2), 1 / of_real (sqrt 2), 0, 0]"
  by (simp add: psi0_def psi1_def psi2_def kron_vec_def)

lemma length_psi0: "length psi0 = 4"
  by (simp add: psi0_val)

subsection \<open>The exponential of the Hamiltonian\<close>

text \<open>
  The sum \<open>M\<close> of the three Pauli products satisfies \<open>M\<^sup>2 = 3 - 2 M\<close>, so the powers of
  \<open>w M\<close> stay in the span of the identity and \<open>M\<close>, with coefficients built from \<open>w ^ n\<close>
  and \<open>(- 3 w) ^ n\<close>. Summing the series entry by entry gives the exponential in closed
  form, with \<open>exp w\<close> and \<open>exp (- 3 w)\<close> in place of the powers.
\<close>

lemma length_xmat: "length (xmat w) = 4" by (simp add: xmat_def)

lemma mpow_xmat: "mpow (xmat w) n = xpow (w ^ n) ((- 3 * w) ^ n)"
proof (induction n)
  case 0
  show ?case by (simp add: length_xmat eye4 xpow_def)
next
  case (Suc n)
  show ?case
    unfolding mpow.simps Suc.IH
    unfolding xmat_def xpow_def matmul4
    by (simp add: field_simps)
qed

lemma exp_series: "(\<lambda>n. (z::complex) ^ n / fact n) sums exp z"
  using exp_converges [of z] by (simp add: scaleR_conv_of_real divide_inverse mult.commute)

lemma sum_diag: "(\<Sum>n. (w::complex) ^ n / fact n) = exp w"
  using exp_series [of w] by (rule sums_unique [symmetric])

lemma sum_plus: "(\<Sum>n. ((w::complex) ^ n + (- (3 * w)) ^ n) / (2 * fact n)) = (exp w + exp (- (3 * w))) / 2"
proof -
  have "(\<lambda>n. (w ^ n / fact n + (- (3 * w)) ^ n / fact n) / 2) sums ((exp w + exp (- (3 * w))) / 2)"
    by (intro sums_divide sums_add exp_series)
  moreover have "(\<lambda>n. (w ^ n / fact n + (- (3 * w)) ^ n / fact n) / 2) = (\<lambda>n. (w ^ n + (- (3 * w)) ^ n) / (2 * fact n))"
    by (rule ext) (simp add: add_divide_distrib mult.commute)
  ultimately have "(\<lambda>n. (w ^ n + (- (3 * w)) ^ n) / (2 * fact n)) sums ((exp w + exp (- (3 * w))) / 2)"
    by simp
  then show ?thesis by (rule sums_unique [symmetric])
qed

lemma sum_minus: "(\<Sum>n. ((w::complex) ^ n - (- (3 * w)) ^ n) / (2 * fact n)) = (exp w - exp (- (3 * w))) / 2"
proof -
  have "(\<lambda>n. (w ^ n / fact n - (- (3 * w)) ^ n / fact n) / 2) sums ((exp w - exp (- (3 * w))) / 2)"
    by (intro sums_divide sums_diff exp_series)
  moreover have "(\<lambda>n. (w ^ n / fact n - (- (3 * w)) ^ n / fact n) / 2) = (\<lambda>n. (w ^ n - (- (3 * w)) ^ n) / (2 * fact n))"
    by (rule ext) (simp add: diff_divide_distrib mult.commute)
  ultimately have "(\<lambda>n. (w ^ n - (- (3 * w)) ^ n) / (2 * fact n)) sums ((exp w - exp (- (3 * w))) / 2)"
    by simp
  then show ?thesis by (rule sums_unique [symmetric])
qed

lemma expm_xmat: "expm (xmat w) = xpow (exp w) (exp (- 3 * w))"
  unfolding expm_def mpow_xmat length_xmat upt4
  by (simp add: xpow_def sum_diag sum_plus sum_minus)

lemma scaled_xmat:
  "map (map (\<lambda>z. z / d)) (mul_scalar (scal a (xmat w)) b) = xmat (a * w * b / d)"
  by (simp add: mul_scalar_def scal_def xmat_def)

lemma arg_H:
  assumes "hbar \<noteq> 0"
  shows "div_scalar (mul_scalar (scal (- \<i>) (H c hbar)) (of_real t)) hbar = Num (xmat (phase c t))"
proof -
  have "- \<i> * of_real (c * hbar / 4) * of_real t / of_real hbar = phase c t"
    using assms by (simp add: phase_def)
  then show ?thesis
    using assms by (simp add: div_scalar_def H_val scaled_xmat)
qed

lemma propagate_H:
  assumes "hbar \<noteq> 0"
  shows "propagate (H c hbar) hbar p0 t = Num (evolved (phase c t) p0)"
  by (simp add: propagate_def arg_H [OF assms] expm_xmat evolved_def)

lemma evolved4:
  "evolved w [a, b, c, d] =
     [exp w * a, (exp w + exp (- 3 * w)) / 2 * b + (exp w - exp (- 3 * w)) / 2 * c,
      (exp w - exp (- 3 * w)) / 2 * b + (exp w + exp (- 3 * w)) / 2 * c, exp w * d]"
  by (simp add: evolved_def xpow_def matvec4)

lemma length_evolved: "length p = 4 \<Longrightarrow> length (evolved w p) = 4"
  by (simp add: evolved_def xpow_def matvec_def)

lemma evolved_entry:
  assumes "length p = 4" and "r < 4"
  shows "evolved w p ! r = (\<Sum>k<4. xpow (exp w) (exp (- 3 * w)) ! r ! k * p ! k)"
proof -
  from assms(1) obtain a b c d where p: "p = [a, b, c, d]"
    using len4 by blast
  show ?thesis
    unfolding p evolved4 sum4 using lt4 [OF assms(2)]
    by (auto simp: xpow_def)
qed

lemma power_entry_xmat:
  assumes A: "\<And>a b. a < 4 \<Longrightarrow> b < 4 \<Longrightarrow> A a b = xmat w ! a ! b"
  shows "i < 4 \<Longrightarrow> j < 4 \<Longrightarrow> power_entry A n i j = xpow (w ^ n) ((- 3 * w) ^ n) ! i ! j"
proof (induction n arbitrary: i j)
  case 0
  then show ?case
    using lt4 [of i] lt4 [of j] by (auto simp: xpow_def)
next
  case (Suc n)
  have "power_entry A (Suc n) i j = (\<Sum>k<4. xmat w ! i ! k * xpow (w ^ n) ((- 3 * w) ^ n) ! k ! j)"
    using Suc by (simp add: A)
  also have "\<dots> = xpow (w ^ Suc n) ((- 3 * w) ^ Suc n) ! i ! j"
    unfolding sum4 using lt4 [OF Suc.prems(1)] lt4 [OF Suc.prems(2)]
    by (auto simp: xmat_def xpow_def field_simps)
  finally show ?case .
qed

lemma exp_entry_xmat:
  assumes A: "\<And>a b. a < 4 \<Longrightarrow> b < 4 \<Longrightarrow> A a b = xmat w ! a ! b"
    and "i < 4" and "j < 4"
  shows "exp_entry A i j = xpow (exp w) (exp (- 3 * w)) ! i ! j"
proof -
  have "exp_entry A i j = (\<Sum>n. xpow (w ^ n) ((- 3 * w) ^ n) ! i ! j / fact n)"
    unfolding exp_entry_def using assms(2,3) by (simp add: power_entry_xmat [of A w, OF A])
  also have "\<dots> = xpow (exp w) (exp (- 3 * w)) ! i ! j"
    using lt4 [OF assms(2)] lt4 [OF assms(3)]
    by (auto simp: xpow_def sum_diag sum_plus sum_minus)
  finally show ?thesis .
qed

lemma H_arg_entry:
  assumes "hbar \<noteq> 0" and "a < 4" and "b < 4"
  shows "- \<i> * H c hbar ! a ! b * of_real t / of_real hbar = xmat (phase c t) ! a ! b"
  unfolding H_val using assms(1) lt4 [OF assms(2)] lt4 [OF assms(3)]
  by (auto simp: xmat_def phase_def)

lemma exchange_arg_entry:
  assumes "a < 4" and "b < 4"
  shows "- \<i> * of_real (c / 4) *
           (matmul_entry sigma1X sigma2X a b + matmul_entry sigma1Y sigma2Y a b
              + matmul_entry sigma1Z sigma2Z a b) * of_real t = xmat (phase c t) ! a ! b"
  unfolding exchange_entry [OF assms] exchange_val
  using lt4 [OF assms(1)] lt4 [OF assms(2)] by (auto simp: xmat_def phase_def)



subsection \<open>The loop, the grid and the series\<close>

text \<open>The loop that appends is the map of its body over the grid.\<close>

lemma psiT_loop_map:
  "psiT_loop Hm hbar p0 ts acc = acc @ map (propagate Hm hbar p0) ts"
  by (induction ts arbitrary: acc) simp_all

lemma psiT_map: "psiT Hm hbar p0 ts = map (propagate Hm hbar p0) ts"
  by (simp add: psiT_def psiT_loop_map)

lemma psiT_H:
  assumes "hbar \<noteq> 0"
  shows "psiT (H c hbar) hbar p0 ts = map (\<lambda>t. Num (evolved (phase c t) p0)) ts"
  by (simp add: psiT_map propagate_H [OF assms])



lemma time_in_range: "\<forall>t\<in>set time. 0 \<le> t \<and> t \<le> 1 / 2"
  by (auto simp: time_def linspace_def)

lemma psiT_dbl_loop_map:
  "psiT_dbl_loop c hbar ts acc = acc @ map (propagate_dbl c hbar) ts"
  by (induction ts arbitrary: acc) simp_all

lemma psiT_dbl_map: "psiT_dbl c hbar ts = map (propagate_dbl c hbar) ts"
  by (simp add: psiT_dbl_def psiT_dbl_loop_map)

lemma length_series: "length (series S traj) = length traj"
  by (simp add: series_def)

lemma series_nth: "i < length traj \<Longrightarrow> series S traj ! i = map_np (expect S) (traj ! i)"
  by (simp add: series_def)

lemma series_psiT_H:
  assumes "hbar \<noteq> 0" and "i < length ts"
  shows "series S (psiT (H c hbar) hbar p0 ts) ! i = Num (expect S (evolved (phase c (ts ! i)) p0))"
  using assms by (simp add: series_def psiT_H)

subsection \<open>Norms and expectation values\<close>

text \<open>
  For a real coupling and time the two exponentials have modulus one, and the
  parallelogram law then gives the norm of the evolved state. The six expectation values
  are bounded by the squared norm through \<open>2 x y \<le> x\<^sup>2 + y\<^sup>2\<close>.
\<close>

lemma Re_phase: "Re (phase c t) = 0"
  by (simp add: phase_def)

lemma cmod_exp_phase: "cmod (exp (phase c t)) = 1"
  by (simp add: phase_def norm_exp_eq_Re)

lemma cmod_exp_phase3: "cmod (exp (- 3 * phase c t)) = 1"
  by (simp add: phase_def norm_exp_eq_Re)

lemma parallelogram: "(cmod (x + y))\<^sup>2 + (cmod (x - y))\<^sup>2 = 2 * (cmod x)\<^sup>2 + 2 * (cmod y)\<^sup>2"
  by (simp add: cmod_power2 power2_sum power2_diff)

lemma mix_norm:
  assumes u: "cmod u = 1" and v: "cmod v = 1"
  shows "(cmod ((u + v) / 2 * b + (u - v) / 2 * c))\<^sup>2 + (cmod ((u - v) / 2 * b + (u + v) / 2 * c))\<^sup>2
         = (cmod b)\<^sup>2 + (cmod c)\<^sup>2"
proof -
  define s where "s = (b + c) / 2"
  define r where "r = (b - c) / 2"
  have e1: "(u + v) / 2 * b + (u - v) / 2 * c = u * s + v * r"
    by (simp add: s_def r_def field_simps)
  have e2: "(u - v) / 2 * b + (u + v) / 2 * c = u * s - v * r"
    by (simp add: s_def r_def field_simps)
  have "(cmod (u * s + v * r))\<^sup>2 + (cmod (u * s - v * r))\<^sup>2 = 2 * (cmod (u * s))\<^sup>2 + 2 * (cmod (v * r))\<^sup>2"
    by (rule parallelogram)
  also have "\<dots> = 2 * (cmod s)\<^sup>2 + 2 * (cmod r)\<^sup>2"
    by (simp add: norm_mult u v)
  also have "\<dots> = (cmod (s + r))\<^sup>2 + (cmod (s - r))\<^sup>2"
    by (rule parallelogram [symmetric])
  also have "s + r = b" by (simp add: s_def r_def field_simps)
  also have "s - r = c" by (simp add: s_def r_def field_simps)
  finally show ?thesis unfolding e1 e2 .
qed

lemma vnorm_evolved:
  assumes "length p = 4"
  shows "vnorm (evolved (phase c t) p) = vnorm p"
proof -
  from assms obtain a b c' d where p: "p = [a, b, c', d]"
    using len4 by blast
  show ?thesis
    unfolding p evolved4 vnorm_def
    using mix_norm [OF cmod_exp_phase cmod_exp_phase3, of c t c t b c']
    by (simp add: norm_mult Re_phase)
qed

lemma vnorm_psi0: "vnorm psi0 = 1"
  by (simp add: psi0_val vnorm_def norm_divide power_divide)

lemma vnorm_sq4: "vnorm [a, b, c, d] = 1 \<Longrightarrow> (cmod a)\<^sup>2 + (cmod b)\<^sup>2 + (cmod c)\<^sup>2 + (cmod d)\<^sup>2 = 1"
  by (simp add: vnorm_def add.assoc)

lemma expect_sigma1X: "expect sigma1X [a, b, c, d] = 2 * (Re a * Re c + Im a * Im c) + 2 * (Re b * Re d + Im b * Im d)"
  by (simp add: expect_def conj_vec_def sigma1X_val vecmat4 dot4)

lemma expect_sigma2X: "expect sigma2X [a, b, c, d] = 2 * (Re a * Re b + Im a * Im b) + 2 * (Re c * Re d + Im c * Im d)"
  by (simp add: expect_def conj_vec_def sigma2X_val vecmat4 dot4)

lemma expect_sigma1Y: "expect sigma1Y [a, b, c, d] = 2 * (Re a * Im c - Im a * Re c) + 2 * (Re b * Im d - Im b * Re d)"
  by (simp add: expect_def conj_vec_def sigma1Y_val vecmat4 dot4)

lemma expect_sigma2Y: "expect sigma2Y [a, b, c, d] = 2 * (Re a * Im b - Im a * Re b) + 2 * (Re c * Im d - Im c * Re d)"
  by (simp add: expect_def conj_vec_def sigma2Y_val vecmat4 dot4)

lemma expect_sigma1Z: "expect sigma1Z [a, b, c, d] = (cmod a)\<^sup>2 + (cmod b)\<^sup>2 - (cmod c)\<^sup>2 - (cmod d)\<^sup>2"
  unfolding cmod_power2
  by (simp add: expect_def conj_vec_def sigma1Z_val vecmat4 dot4 power2_eq_square)

lemma expect_sigma2Z: "expect sigma2Z [a, b, c, d] = (cmod a)\<^sup>2 - (cmod b)\<^sup>2 + (cmod c)\<^sup>2 - (cmod d)\<^sup>2"
  unfolding cmod_power2
  by (simp add: expect_def conj_vec_def sigma2Z_val vecmat4 dot4 power2_eq_square)

lemma bra_ket4:
  "bra_ket [a, b, c, d] [[a00,a01,a02,a03],[a10,a11,a12,a13],[a20,a21,a22,a23],[a30,a31,a32,a33]]
   = dot (vecmat (conj_vec [a, b, c, d]) [[a00,a01,a02,a03],[a10,a11,a12,a13],[a20,a21,a22,a23],[a30,a31,a32,a33]]) [a, b, c, d]"
  unfolding bra_ket_def sum4 conj_vec_def list.map vecmat4 dot4
  by (simp add: algebra_simps)

lemma expect_bra_ket:
  assumes "length p = 4"
  shows "expect sigma1X p = Re (bra_ket p sigma1X)" and "expect sigma1Y p = Re (bra_ket p sigma1Y)"
    and "expect sigma1Z p = Re (bra_ket p sigma1Z)" and "expect sigma2X p = Re (bra_ket p sigma2X)"
    and "expect sigma2Y p = Re (bra_ket p sigma2Y)" and "expect sigma2Z p = Re (bra_ket p sigma2Z)"
proof -
  from assms obtain a b c d where p: "p = [a, b, c, d]"
    using len4 by blast
  show "expect sigma1X p = Re (bra_ket p sigma1X)"
    unfolding p sigma1X_val bra_ket4 expect_def ..
  show "expect sigma1Y p = Re (bra_ket p sigma1Y)"
    unfolding p sigma1Y_val bra_ket4 expect_def ..
  show "expect sigma1Z p = Re (bra_ket p sigma1Z)"
    unfolding p sigma1Z_val bra_ket4 expect_def ..
  show "expect sigma2X p = Re (bra_ket p sigma2X)"
    unfolding p sigma2X_val bra_ket4 expect_def ..
  show "expect sigma2Y p = Re (bra_ket p sigma2Y)"
    unfolding p sigma2Y_val bra_ket4 expect_def ..
  show "expect sigma2Z p = Re (bra_ket p sigma2Z)"
    unfolding p sigma2Z_val bra_ket4 expect_def ..
qed

lemma cross_bound: "\<bar>2 * (x * y + x' * y')\<bar> \<le> x\<^sup>2 + x'\<^sup>2 + (y\<^sup>2 + y'\<^sup>2)" for x :: real
proof -
  have "0 \<le> (x - y)\<^sup>2" "0 \<le> (x' - y')\<^sup>2" "0 \<le> (x + y)\<^sup>2" "0 \<le> (x' + y')\<^sup>2"
    by simp_all
  then show ?thesis
    by (simp add: power2_sum power2_diff abs_le_iff)
qed

lemma cross_bound_skew: "\<bar>2 * (x * y' - x' * y)\<bar> \<le> x\<^sup>2 + x'\<^sup>2 + (y\<^sup>2 + y'\<^sup>2)" for x :: real
  using cross_bound [of x y' "- x'" y] by simp

lemma expect_bounds:
  assumes "length q = 4" and "vnorm q = 1"
  shows "\<bar>expect sigma1X q\<bar> \<le> 1" and "\<bar>expect sigma1Y q\<bar> \<le> 1" and "\<bar>expect sigma1Z q\<bar> \<le> 1"
    and "\<bar>expect sigma2X q\<bar> \<le> 1" and "\<bar>expect sigma2Y q\<bar> \<le> 1" and "\<bar>expect sigma2Z q\<bar> \<le> 1"
proof -
  from assms(1) obtain a b c d where q: "q = [a, b, c, d]"
    using len4 by blast
  have n: "(cmod a)\<^sup>2 + (cmod b)\<^sup>2 + (cmod c)\<^sup>2 + (cmod d)\<^sup>2 = 1"
    using assms(2) unfolding q by (rule vnorm_sq4)
  have n': "(Re a)\<^sup>2 + (Im a)\<^sup>2 + ((Re b)\<^sup>2 + (Im b)\<^sup>2) + ((Re c)\<^sup>2 + (Im c)\<^sup>2) + ((Re d)\<^sup>2 + (Im d)\<^sup>2) = 1"
    using n unfolding cmod_power2 .
  show "\<bar>expect sigma1X q\<bar> \<le> 1"
    using cross_bound [of "Re a" "Re c" "Im a" "Im c"] cross_bound [of "Re b" "Re d" "Im b" "Im d"] n'
    unfolding q expect_sigma1X by linarith
  show "\<bar>expect sigma2X q\<bar> \<le> 1"
    using cross_bound [of "Re a" "Re b" "Im a" "Im b"] cross_bound [of "Re c" "Re d" "Im c" "Im d"] n'
    unfolding q expect_sigma2X by linarith
  show "\<bar>expect sigma1Y q\<bar> \<le> 1"
    using cross_bound_skew [of "Re a" "Im c" "Im a" "Re c"] cross_bound_skew [of "Re b" "Im d" "Im b" "Re d"] n'
    unfolding q expect_sigma1Y by linarith
  show "\<bar>expect sigma2Y q\<bar> \<le> 1"
    using cross_bound_skew [of "Re a" "Im b" "Im a" "Re b"] cross_bound_skew [of "Re c" "Im d" "Im c" "Re d"] n'
    unfolding q expect_sigma2Y by linarith
  have nn: "0 \<le> (cmod a)\<^sup>2" "0 \<le> (cmod b)\<^sup>2" "0 \<le> (cmod c)\<^sup>2" "0 \<le> (cmod d)\<^sup>2"
    by simp_all
  show "\<bar>expect sigma1Z q\<bar> \<le> 1"
    using n nn unfolding q expect_sigma1Z by linarith
  show "\<bar>expect sigma2Z q\<bar> \<le> 1"
    using n nn unfolding q expect_sigma2Z by linarith
qed

lemma zsum_evolved_psi0: "expect sigma1Z (evolved (phase c t) psi0) + expect sigma2Z (evolved (phase c t) psi0) = 1"
proof -
  have "(cmod (exp (phase c t) * (1 / of_real (sqrt 2))))\<^sup>2 = 1 / 2"
    by (simp add: norm_mult Re_phase norm_divide power_divide)
  then show ?thesis
    unfolding psi0_val evolved4 expect_sigma1Z expect_sigma2Z by simp
qed

subsection \<open>The range of doubles\<close>

text \<open>
  With \<open>J = 2 \<pi>\<close>, a time in \<open>[0, 1 / 2]\<close> and both \<open>J * hbar\<close> and \<open>1 / hbar\<close> in range, every
  array of the loop body is in range, and the body is the one over the exact values.
\<close>

lemma J_bounds: "0 \<le> J" "J \<le> 8"
  using pi_ge_zero pi_less_4 by (simp_all add: J_def)

lemma not_overflows_small: "\<bar>x\<bar> \<le> 8 \<Longrightarrow> \<not> overflows x"
proof -
  have "(8::real) < 2 ^ 1024"
    using power_strict_increasing [of 3 1024 "2::real"] by simp
  then show "\<bar>x\<bar> \<le> 8 \<Longrightarrow> \<not> overflows x"
    by (simp add: overflows_def)
qed

lemma not_overflows_mono: "\<not> overflows y \<Longrightarrow> \<bar>x\<bar> \<le> \<bar>y\<bar> \<Longrightarrow> \<not> overflows x"
  by (simp add: overflows_def)

lemma overflows_power: "overflows (2 ^ n) \<longleftrightarrow> 1024 \<le> n"
proof -
  have "\<bar>(2::real) ^ n\<bar> = 2 ^ n"
    by (rule abs_of_nonneg) (rule zero_le_power, simp)
  moreover have "(2::real) ^ 1024 \<le> 2 ^ n \<longleftrightarrow> 1024 \<le> n"
    by (rule power_increasing_iff) simp
  ultimately show ?thesis
    unfolding overflows_def by (simp only:)
qed

lemma inverse_inverse_power: "1 / (1 / 2 ^ n) = (2::real) ^ n"
  by (simp only: divide_divide_eq_right mult_1 div_by_1)

lemma one_in_range: "\<not> overflows (J * 1)" "\<not> overflows (1 / 1)"
  using J_bounds by (auto intro!: not_overflows_small)

lemma finite_arr_xmat:
  assumes "\<not> overflows (2 * Re w)" and "\<not> overflows (2 * Im w)"
  shows "finite_arr (xmat w) = Num (xmat w)"
proof -
  have z: "\<not> overflows 0"
    by (rule not_overflows_small) simp
  have r: "\<not> overflows (Re w)" and i: "\<not> overflows (Im w)"
    by (rule not_overflows_mono [OF assms(1)], simp, rule not_overflows_mono [OF assms(2)], simp)
  have r': "\<not> overflows (- Re w)" and i': "\<not> overflows (- Im w)"
    by (rule not_overflows_mono [OF r], simp, rule not_overflows_mono [OF i], simp)
  show ?thesis
    using assms z r i r' i' by (simp add: finite_arr_def xmat_def in_range_def)
qed

lemma times_xmat: "mul_scalar (scal a (xmat w)) b = xmat (a * w * b)"
  by (simp add: mul_scalar_def scal_def xmat_def)

lemma map_xmat: "map (map (\<lambda>z. z * d)) (xmat w) = xmat (w * d)"
  by (simp add: xmat_def)

lemma propagate_dbl_in_range:
  assumes "hbar \<noteq> 0" and "\<not> overflows (J * hbar)" and "\<not> overflows (1 / hbar)"
    and "0 \<le> t" and "t \<le> 1 / 2"
  shows "propagate_dbl J hbar t = Num (evolved (phase J t) psi0)"
proof -
  define w where "w = - \<i> * of_real (J * hbar / 4) * of_real t"
  have Re_w: "Re w = 0" and Im_w: "Im w = - (J * hbar / 4 * t)"
    by (simp_all add: w_def)
  have "\<bar>2 * (J * hbar / 4 * t)\<bar> = \<bar>J * hbar\<bar> * (t / 2)"
    using assms(4) by (simp add: abs_mult)
  also have "\<dots> \<le> \<bar>J * hbar\<bar> * 1"
    using assms(4,5) by (intro mult_left_mono) simp_all
  finally have b1: "\<bar>2 * Im w\<bar> \<le> \<bar>J * hbar\<bar>"
    by (simp add: Im_w)
  have f1: "finite_arr (xmat w) = Num (xmat w)"
  proof (rule finite_arr_xmat)
    show "\<not> overflows (2 * Re w)"
      by (rule not_overflows_small) (simp add: Re_w)
    show "\<not> overflows (2 * Im w)"
      by (rule not_overflows_mono [OF assms(2) b1])
  qed
  have ph: "w * of_real (1 / hbar) = phase J t"
    using assms(1) by (simp add: w_def phase_def)
  have "0 \<le> J" "J \<le> 8"
    using pi_ge_zero pi_less_4 by (simp_all add: J_def)
  then have "J * t \<le> 8 * (1 / 2)"
    using assms(4,5) by (intro mult_mono) simp_all
  moreover have "0 \<le> J * t"
    using \<open>0 \<le> J\<close> assms(4) by simp
  ultimately have "\<bar>J * t / 2\<bar> \<le> 8"
    by simp
  then have b2: "\<bar>2 * Im (phase J t)\<bar> \<le> 8"
    by (simp add: phase_def)
  have f2: "finite_arr (xmat (phase J t)) = Num (xmat (phase J t))"
  proof (rule finite_arr_xmat)
    show "\<not> overflows (2 * Re (phase J t))"
      by (rule not_overflows_small) (simp add: Re_phase)
    show "\<not> overflows (2 * Im (phase J t))"
      by (rule not_overflows_small [OF b2])
  qed
  have h1: "H_dbl J hbar = Num (xmat (of_real (J * hbar / 4)))"
    using assms(2) by (simp add: H_dbl_def H_val)
  have a1: "mul_scalar (scal (- \<i>) (xmat (of_real (J * hbar / 4)))) (of_real t) = xmat w"
    unfolding times_xmat w_def ..
  have a2: "map (map (\<lambda>z. z * of_real (1 / hbar))) (xmat w) = xmat (phase J t)"
    unfolding map_xmat ph ..
  show ?thesis
    unfolding propagate_dbl_def h1 np.case a1 f1 a2 f2 expm_xmat evolved_def
    using assms(1,3) by simp
qed

section \<open>The claims\<close>

text \<open>
  C1. For every time \<open>t\<close> of the grid the loop computes \<open>exp(- \<i> H t / hbar)\<close> applied to the
  initial state, each sample from the initial state alone by an exponential of its own,
  and the trajectory lists these states in the order of the grid. The exponential and
  its application are the specification's, \<open>exp_entry\<close> and a sum over the columns: entry
  \<open>i\<close> of the trajectory depends on \<open>ts ! i\<close> and \<open>p0\<close> only. Proved for \<open>hbar \<noteq> 0\<close>, any
  coupling and grid and any initial vector of dimension 4.
\<close>

theorem psiT_samples:
  assumes "hbar \<noteq> 0" and "length p0 = 4"
  shows "length (psiT (H c hbar) hbar p0 ts) = length ts \<and>
         (\<forall>i<length ts. \<exists>q. psiT (H c hbar) hbar p0 ts ! i = Num q \<and> length q = 4 \<and>
            (\<forall>r<4. q ! r =
               (\<Sum>k<4. exp_entry (\<lambda>a b. - \<i> * H c hbar ! a ! b * of_real (ts ! i) / of_real hbar) r k
                        * p0 ! k)))"
proof -
  have "evolved (phase c t) p0 ! r =
          (\<Sum>k<4. exp_entry (\<lambda>a b. - \<i> * H c hbar ! a ! b * of_real t / of_real hbar) r k * p0 ! k)"
    if "r < 4" for r t
  proof -
    have "exp_entry (\<lambda>a b. - \<i> * H c hbar ! a ! b * of_real t / of_real hbar) r k
            = xpow (exp (phase c t)) (exp (- 3 * phase c t)) ! r ! k" if "k < 4" for k
      by (rule exp_entry_xmat [OF H_arg_entry [OF assms(1)] \<open>r < 4\<close> that])
    then show ?thesis
      by (simp add: evolved_entry [OF assms(2) that])
  qed
  then show ?thesis
    by (simp add: psiT_H [OF assms(1)] length_evolved [OF assms(2)])
qed

theorem psiT_samples_witness:
  "\<exists>q. psiT (H J 1) 1 psi0 [0, 1 / 2] ! 1 = Num q \<and> length q = 4 \<and>
     q ! 1 = (\<Sum>k<4. exp_entry (\<lambda>a b. - \<i> * H J 1 ! a ! b * of_real (1 / 2) / of_real 1) 1 k * psi0 ! k)"
proof -
  have nz: "(1::real) \<noteq> 0" by simp
  note sample = psiT_samples [OF nz length_psi0, of J "[0, 1 / 2]", THEN conjunct2, THEN spec, THEN mp]
  have "\<exists>q. psiT (H J 1) 1 psi0 [0, 1 / 2] ! 1 = Num q \<and> length q = 4 \<and>
          (\<forall>r<4. q ! r =
             (\<Sum>k<4. exp_entry (\<lambda>a b. - \<i> * H J 1 ! a ! b * of_real ([0, 1 / 2] ! 1) / of_real 1) r k
                      * psi0 ! k))"
    by (rule sample) simp
  then obtain q where q: "psiT (H J 1) 1 psi0 [0, 1 / 2] ! 1 = Num q" "length q = 4"
    "\<forall>r<4. q ! r =
       (\<Sum>k<4. exp_entry (\<lambda>a b. - \<i> * H J 1 ! a ! b * of_real ([0, 1 / 2] ! 1) / of_real 1) r k
                * psi0 ! k)"
    by blast
  have "q ! 1 =
       (\<Sum>k<4. exp_entry (\<lambda>a b. - \<i> * H J 1 ! a ! b * of_real ([0, 1 / 2] ! 1) / of_real 1) 1 k
                * psi0 ! k)"
    by (rule q(3) [THEN spec, THEN mp]) simp
  with q(1,2) show ?thesis by simp
qed

text \<open>
  C2. For every sample of the grid the evolved state has the norm of the initial state,
  and the initial state \<open>psi0\<close> of the notebook has norm one. Proved for \<open>hbar \<noteq> 0\<close>, any
  coupling and grid, and any initial vector of dimension 4.
\<close>

theorem norm_preserved:
  assumes "hbar \<noteq> 0" and "i < length ts" and "length p0 = 4"
  shows "vnorm psi0 = 1 \<and>
         (\<exists>q. psiT (H c hbar) hbar p0 ts ! i = Num q \<and> vnorm q = vnorm p0)"
proof -
  have "vnorm (evolved (phase c (ts ! i)) p0) = vnorm p0"
    using assms(3) by (rule vnorm_evolved)
  then show ?thesis
    using assms by (simp add: psiT_H vnorm_psi0)
qed

theorem norm_preserved_witness:
  "\<exists>q. psiT (H J 1) 1 psi0 [0, 1 / 2] ! 1 = Num q \<and> vnorm q = vnorm psi0"
  using norm_preserved [of 1 1 "[0, 1 / 2]" psi0 J] by (auto simp: length_psi0)

text \<open>
  C3. The Hamiltonian is \<open>(J hbar / 4) (\<sigma>1x \<sigma>2x + \<sigma>1y \<sigma>2y + \<sigma>1z \<sigma>2z)\<close>: every entry is
  the factor times the sum of the entries of the three standard matrix products.
\<close>

theorem H_formula:
  "H c hbar = map (\<lambda>i. map (\<lambda>j. of_real (c * hbar / 4) *
       (matmul_entry sigma1X sigma2X i j + matmul_entry sigma1Y sigma2Y i j + matmul_entry sigma1Z sigma2Z i j))
       [0..<4]) [0..<4]"
  unfolding H_val upt4 matmul_entry_def sum4
  by (simp add: xmat_def sigma1X_val sigma2X_val sigma1Y_val sigma2Y_val sigma1Z_val sigma2Z_val)

text \<open>C4. The Hamiltonian is Hermitian: it equals its conjugate transpose.\<close>

theorem H_hermitian: "dagger (H c hbar) = H c hbar"
  by (simp add: H_val xmat_def dagger_def ncols_def col_def upt4)

text \<open>
  C5. For each subsystem and axis the extractor gives a series whose entry \<open>i\<close> is the real
  part of \<open>\<psi>(t\<^sub>i)\<^sup>\<dagger> \<sigma> \<psi>(t\<^sub>i)\<close>, and each of the six series is as long as the trajectory,
  which is as long as the time grid. Proved for any trajectory whose states have
  dimension 4.
\<close>

theorem extractor_series:
  assumes "\<forall>p. Num p \<in> set traj \<longrightarrow> length p = 4"
  shows "length (x1 traj) = length traj \<and> length (y1 traj) = length traj \<and>
         length (z1 traj) = length traj \<and> length (x2 traj) = length traj \<and>
         length (y2 traj) = length traj \<and> length (z2 traj) = length traj \<and>
         (hbar \<noteq> 0 \<and> length p0 = 4 \<longrightarrow> length (psiT (H c hbar) hbar p0 ts) = length ts) \<and>
         (\<forall>i<length traj. \<forall>p. traj ! i = Num p \<longrightarrow>
            x1 traj ! i = Num (Re (bra_ket p sigma1X)) \<and>
            y1 traj ! i = Num (Re (bra_ket p sigma1Y)) \<and>
            z1 traj ! i = Num (Re (bra_ket p sigma1Z)) \<and>
            x2 traj ! i = Num (Re (bra_ket p sigma2X)) \<and>
            y2 traj ! i = Num (Re (bra_ket p sigma2Y)) \<and>
            z2 traj ! i = Num (Re (bra_ket p sigma2Z)))"
proof -
  have len: "length p = 4" if "i < length traj" and "traj ! i = Num p" for i p
  proof -
    from that have "Num p \<in> set traj"
      by (metis nth_mem)
    with assms show ?thesis by blast
  qed
  show ?thesis
    by (simp add: x1_def y1_def z1_def x2_def y2_def z2_def length_series series_nth psiT_map
          expect_bra_ket len)
qed

theorem extractor_series_witness:
  "x1 [Num psi0] ! 0 = Num (Re (bra_ket psi0 sigma1X)) \<and>
   z2 [Num psi0] ! 0 = Num (Re (bra_ket psi0 sigma2Z)) \<and>
   length (y1 [Num psi0]) = 1 \<and>
   length (psiT (H J 1) 1 psi0 time) = length time"
  using extractor_series [where traj = "[Num psi0]" and hbar = 1 and c = J
      and ?p0.0 = psi0 and ts = time]
  by (simp add: length_psi0)

text \<open>
  C6. At every index of the grid each of the six expectation values lies in \<open>[-1, 1]\<close>.
  Proved for \<open>hbar \<noteq> 0\<close>, any coupling and grid, and any initial vector of dimension 4 and
  norm one.
\<close>

theorem observables_bounded:
  assumes "hbar \<noteq> 0" and "i < length ts" and "length p0 = 4" and "vnorm p0 = 1"
  shows "\<exists>a b c' d e f.
           x1 (psiT (H c hbar) hbar p0 ts) ! i = Num a \<and> - 1 \<le> a \<and> a \<le> 1 \<and>
           y1 (psiT (H c hbar) hbar p0 ts) ! i = Num b \<and> - 1 \<le> b \<and> b \<le> 1 \<and>
           z1 (psiT (H c hbar) hbar p0 ts) ! i = Num c' \<and> - 1 \<le> c' \<and> c' \<le> 1 \<and>
           x2 (psiT (H c hbar) hbar p0 ts) ! i = Num d \<and> - 1 \<le> d \<and> d \<le> 1 \<and>
           y2 (psiT (H c hbar) hbar p0 ts) ! i = Num e \<and> - 1 \<le> e \<and> e \<le> 1 \<and>
           z2 (psiT (H c hbar) hbar p0 ts) ! i = Num f \<and> - 1 \<le> f \<and> f \<le> 1"
proof -
  define q where "q = evolved (phase c (ts ! i)) p0"
  have len: "length q = 4"
    unfolding q_def by (rule length_evolved [OF assms(3)])
  have nrm: "vnorm q = 1"
    unfolding q_def by (simp add: vnorm_evolved [OF assms(3)] assms(4))
  note b = expect_bounds [OF len nrm]
  have s: "series S (psiT (H c hbar) hbar p0 ts) ! i = Num (expect S q)" for S
    unfolding q_def by (rule series_psiT_H [OF assms(1,2)])
  show ?thesis
    unfolding x1_def y1_def z1_def x2_def y2_def z2_def s
    using b by (simp add: abs_le_iff)
qed

theorem observables_bounded_witness:
  "\<exists>a. x1 (psiT (H J 1) 1 psi0 [0, 1 / 2]) ! 1 = Num a \<and> - 1 \<le> a \<and> a \<le> 1"
  using observables_bounded [of 1 1 "[0, 1 / 2]" psi0 J] by (auto simp: length_psi0 vnorm_psi0)

text \<open>
  C7, as amended. With \<open>hbar = 0\<close> the loop body does not stop with an error of its own and
  is not guarded: it attempts the computation, the division by \<open>hbar\<close> gives a non-finite
  array, which goes to \<open>expm\<close>, and the sample is not a state.
\<close>

theorem no_hbar_guard:
  assumes "hbar = 0" and "length p0 = 4"
  shows "div_scalar (mul_scalar (scal (- \<i>) (H c hbar)) (of_real t)) hbar = NonFinite \<and>
         propagate (H c hbar) hbar p0 t = NonFinite"
  using assms(1) by (simp add: propagate_def div_scalar_def)

theorem no_hbar_guard_witness:
  "div_scalar (mul_scalar (scal (- \<i>) (H J 0)) (of_real (1 / 200))) 0 = NonFinite \<and>
   propagate (H J 0) 0 psi0 (1 / 200) = NonFinite"
  using no_hbar_guard [of 0 psi0 J "1 / 200"] by (simp add: length_psi0)

text \<open>
  C7, as stated, says that at \<open>hbar = 0\<close> the engine stops with an error for an invalid
  parameter instead of attempting the computation. It does not: on a grid of two samples
  it carries out both divisions by zero, and each sample is the non-finite outcome.
\<close>

theorem hbar_zero_unguarded:
  "psiT (H J 0) 0 psi0 [0, 1 / 200] = [NonFinite, NonFinite]"
  by (simp add: psiT_def propagate_def div_scalar_def)



text \<open>
  C9. At every index of the grid the two z series add up to what they add up to at index
  0, which is 1. Proved for \<open>hbar \<noteq> 0\<close> and any coupling and grid, from the initial state
  \<open>psi0\<close>.
\<close>

theorem z_sum_conserved:
  assumes "hbar \<noteq> 0" and "i < length ts"
  shows "\<exists>a b a0 b0.
           z1 (psiT (H c hbar) hbar psi0 ts) ! i = Num a \<and>
           z2 (psiT (H c hbar) hbar psi0 ts) ! i = Num b \<and>
           z1 (psiT (H c hbar) hbar psi0 ts) ! 0 = Num a0 \<and>
           z2 (psiT (H c hbar) hbar psi0 ts) ! 0 = Num b0 \<and>
           a + b = a0 + b0 \<and> a0 + b0 = 1"
proof -
  have pos: "0 < length ts"
    using assms(2) by auto
  show ?thesis
    unfolding z1_def z2_def series_psiT_H [OF assms] series_psiT_H [OF assms(1) pos]
    by (simp add: zsum_evolved_psi0)
qed

theorem z_sum_conserved_witness:
  "\<exists>a b a0 b0.
     z1 (psiT (H J 1) 1 psi0 [0, 1 / 2]) ! 1 = Num a \<and>
     z2 (psiT (H J 1) 1 psi0 [0, 1 / 2]) ! 1 = Num b \<and>
     z1 (psiT (H J 1) 1 psi0 [0, 1 / 2]) ! 0 = Num a0 \<and>
     z2 (psiT (H J 1) 1 psi0 [0, 1 / 2]) ! 0 = Num b0 \<and>
     a + b = a0 + b0 \<and> a0 + b0 = 1"
  using z_sum_conserved [of 1 1 "[0, 1 / 2]" J] by simp

text \<open>
  C10, as amended. For every nonzero \<open>hbar\<close> for which neither \<open>J * hbar\<close> nor \<open>1 / hbar\<close>
  leaves the range of doubles, and every time of the grid, the loop body computes
  \<open>exp(- \<i> (J / 4) (\<sigma>1x \<sigma>2x + \<sigma>1y \<sigma>2y + \<sigma>1z \<sigma>2z) t)\<close> applied to \<open>psi0\<close>, whatever \<open>hbar\<close> is,
  and the run with \<open>hbar\<close> replaced by 1 gives the same trajectory. The equality is one of
  exact values: the doubles agree up to rounding.
\<close>

theorem hbar_cancels_in_range:
  assumes "hbar \<noteq> 0" and "\<not> overflows (J * hbar)" and "\<not> overflows (1 / hbar)"
    and "\<forall>t\<in>set ts. 0 \<le> t \<and> t \<le> 1 / 2"
  shows "psiT_dbl J hbar ts = psiT_dbl J 1 ts \<and>
         (\<forall>i<length ts. \<exists>q. psiT_dbl J hbar ts ! i = Num q \<and> length q = 4 \<and>
            (\<forall>r<4. q ! r =
               (\<Sum>k<4. exp_entry (\<lambda>a b. - \<i> * of_real (J / 4) *
                          (matmul_entry sigma1X sigma2X a b + matmul_entry sigma1Y sigma2Y a b
                             + matmul_entry sigma1Z sigma2Z a b) * of_real (ts ! i)) r k
                        * psi0 ! k)))"
proof -
  have body: "propagate_dbl J hbar t = Num (evolved (phase J t) psi0)"
    and body1: "propagate_dbl J 1 t = Num (evolved (phase J t) psi0)" if "t \<in> set ts" for t
  proof -
    from that assms(4) have t: "0 \<le> t" "t \<le> 1 / 2" by auto
    show "propagate_dbl J hbar t = Num (evolved (phase J t) psi0)"
      by (rule propagate_dbl_in_range [OF assms(1,2,3) t])
    show "propagate_dbl J 1 t = Num (evolved (phase J t) psi0)"
      by (rule propagate_dbl_in_range [OF _ one_in_range t]) simp
  qed
  have same: "psiT_dbl J hbar ts = psiT_dbl J 1 ts"
    by (simp add: psiT_dbl_map body body1)
  have entry: "evolved (phase J t) psi0 ! r =
      (\<Sum>k<4. exp_entry (\<lambda>a b. - \<i> * of_real (J / 4) *
                 (matmul_entry sigma1X sigma2X a b + matmul_entry sigma1Y sigma2Y a b
                    + matmul_entry sigma1Z sigma2Z a b) * of_real t) r k * psi0 ! k)"
    if "r < 4" for r t
  proof -
    have "exp_entry (\<lambda>a b. - \<i> * of_real (J / 4) *
                 (matmul_entry sigma1X sigma2X a b + matmul_entry sigma1Y sigma2Y a b
                    + matmul_entry sigma1Z sigma2Z a b) * of_real t) r k
            = xpow (exp (phase J t)) (exp (- 3 * phase J t)) ! r ! k" if "k < 4" for k
      by (rule exp_entry_xmat [OF exchange_arg_entry \<open>r < 4\<close> that])
    then show ?thesis
      by (simp add: evolved_entry [OF length_psi0 that])
  qed
  have "\<exists>q. psiT_dbl J hbar ts ! i = Num q \<and> length q = 4 \<and>
            (\<forall>r<4. q ! r =
               (\<Sum>k<4. exp_entry (\<lambda>a b. - \<i> * of_real (J / 4) *
                          (matmul_entry sigma1X sigma2X a b + matmul_entry sigma1Y sigma2Y a b
                             + matmul_entry sigma1Z sigma2Z a b) * of_real (ts ! i)) r k
                        * psi0 ! k))" if "i < length ts" for i
  proof -
    from that have "ts ! i \<in> set ts" by simp
    then have "psiT_dbl J hbar ts ! i = Num (evolved (phase J (ts ! i)) psi0)"
      using that by (simp add: psiT_dbl_map body)
    then show ?thesis
      using entry by (simp add: length_evolved [OF length_psi0])
  qed
  with same show ?thesis by blast
qed

theorem hbar_cancels_in_range_witness:
  "psiT_dbl J (1 / 2 ^ 113) time = psiT_dbl J 1 time"
proof -
  have a: "(1 / 2 ^ 113 :: real) \<noteq> 0" by simp
  have "\<bar>J * (1 / 2 ^ 113)\<bar> \<le> \<bar>J * 1\<bar>"
    using J_bounds by (simp add: abs_mult field_simps)
  then have b: "\<not> overflows (J * (1 / 2 ^ 113))"
    by (rule not_overflows_mono [OF one_in_range(1)])
  have c: "\<not> overflows (1 / (1 / 2 ^ 113))"
    unfolding inverse_inverse_power overflows_power by simp
  show ?thesis
    using hbar_cancels_in_range [OF a b c time_in_range] by simp
qed

text \<open>
  C10, as stated, is about every nonzero \<open>hbar\<close>. At \<open>hbar = 1 / 2 ^ 1030\<close>, a double, the
  reciprocal \<open>1 / hbar\<close> is beyond the range: the sample at \<open>t = 1 / 2\<close> is non-finite, while
  with \<open>hbar = 1\<close> it is a state.
\<close>

theorem hbar_out_of_range:
  "propagate_dbl J (1 / 2 ^ 1030) (1 / 2) \<noteq> propagate_dbl J 1 (1 / 2)"
proof -
  have "overflows (1 / (1 / 2 ^ 1030))"
    unfolding inverse_inverse_power overflows_power by simp
  then have "propagate_dbl J (1 / 2 ^ 1030) (1 / 2) = NonFinite"
    by (simp add: propagate_dbl_def split: np.split)
  moreover have "propagate_dbl J 1 (1 / 2) = Num (evolved (phase J (1 / 2)) psi0)"
    by (rule propagate_dbl_in_range [OF _ one_in_range]) simp_all
  ultimately show ?thesis by simp
qed

end
